theory Spec2Isabelle
  imports Main "HOL-Library.Sublist"
begin

section \<open>Python strings\<close>

text \<open>
  A Python \<open>str\<close> is modelled as a \<open>string\<close>: a list of characters with code points
  below 256.  On these code points \<open>str.isspace\<close>, \<open>str.lower\<close>, \<open>str.strip\<close>,
  \<open>str.split\<close>, \<open>str.replace\<close>, \<open>str.startswith\<close>, \<open>str.join\<close> and the
  substring test \<open>in\<close> are written out below as Python defines them.
\<close>

definition NL :: char where
  "NL = CHR 0x0A"

text \<open>Whitespace as \<open>str.strip()\<close> sees it: U+0009..U+000D, U+001C..U+0020, U+0085, U+00A0.\<close>

definition py_isspace :: "char \<Rightarrow> bool" where
  "py_isspace c =
     (let n = (of_char c :: nat)
      in (9 \<le> n \<and> n \<le> 13) \<or> (28 \<le> n \<and> n \<le> 32) \<or> n = 133 \<or> n = 160)"

text \<open>\<open>str.lower()\<close> on one character: A..Z and the capital letters U+00C0..U+00DE
  (the multiplication sign U+00D7 apart) move up by 32.\<close>

definition py_lower_char :: "char \<Rightarrow> char" where
  "py_lower_char c =
     (let n = (of_char c :: nat)
      in if (65 \<le> n \<and> n \<le> 90) \<or> (192 \<le> n \<and> n \<le> 222 \<and> n \<noteq> 215)
         then char_of (n + 32) else c)"

definition py_lower :: "string \<Rightarrow> string" where
  "py_lower s = map py_lower_char s"

definition py_lstrip :: "string \<Rightarrow> string" where
  "py_lstrip s = dropWhile py_isspace s"

definition py_rstrip :: "string \<Rightarrow> string" where
  "py_rstrip s = rev (dropWhile py_isspace (rev s))"

definition py_strip :: "string \<Rightarrow> string" where
  "py_strip s = py_rstrip (py_lstrip s)"

text \<open>\<open>s.split('\n')\<close>: never the empty list; \<open>''.split('\n')\<close> is \<open>['']\<close>.\<close>

fun py_split_nl :: "string \<Rightarrow> string list" where
  "py_split_nl [] = [[]]"
| "py_split_nl (c # cs) =
     (if c = NL then [] # py_split_nl cs
      else (case py_split_nl cs of
              [] \<Rightarrow> [[c]]
            | l # ls \<Rightarrow> (c # l) # ls))"

text \<open>\<open>'\n'.join(xs)\<close>.\<close>

fun py_join_nl :: "string list \<Rightarrow> string" where
  "py_join_nl [] = []"
| "py_join_nl [l] = l"
| "py_join_nl (l # ls) = l @ NL # py_join_nl ls"

text \<open>\<open>s.replace(c, '')\<close> for a one-character \<open>c\<close>.\<close>

definition py_remove :: "char \<Rightarrow> string \<Rightarrow> string" where
  "py_remove c s = filter (\<lambda>x. x \<noteq> c) s"

text \<open>\<open>k in s\<close> on strings is the contiguous-substring test; \<open>s.startswith(p)\<close>
  is the prefix test.\<close>

definition py_in :: "string \<Rightarrow> string \<Rightarrow> bool" where
  "py_in k s = sublist k s"

definition py_startswith :: "string \<Rightarrow> string \<Rightarrow> bool" where
  "py_startswith s p = prefix p s"

section \<open>detect_diagram_type\<close>

text \<open>The dictionary \<open>type_map\<close>; Python iterates it in insertion order.\<close>

definition type_map :: "(string \<times> string) list" where
  "type_map =
     [(''graph'', ''flowchart''),
      (''flowchart'', ''flowchart''),
      (''sequencediagram'', ''sequence''),
      (''classdiagram'', ''class''),
      (''statediagram'', ''state''),
      (''erdiagram'', ''er''),
      (''gantt'', ''gantt''),
      (''gitgraph'', ''git-graph''),
      (''journey'', ''user-journey''),
      (''pie'', ''pie''),
      (''mindmap'', ''mindmap''),
      (''timeline'', ''timeline''),
      (''quadrantchart'', ''quadrant'')]"

text \<open>The \<open>for keyword, diagram_type in type_map.items()\<close> loop with its early
  \<open>return\<close>, and the \<open>return 'unknown'\<close> after it.\<close>

fun detect_loop :: "(string \<times> string) list \<Rightarrow> string \<Rightarrow> string" where
  "detect_loop [] first_line = ''unknown''"
| "detect_loop ((keyword, diagram_type) # rest) first_line =
     (if py_in keyword (py_remove CHR ''-'' (py_remove CHR '' '' first_line))
      then diagram_type
      else detect_loop rest first_line)"

definition detect_diagram_type :: "string \<Rightarrow> string" where
  "detect_diagram_type content =
     (let first_line =
        (if py_strip content \<noteq> []
         then py_lower (hd (py_split_nl (py_strip content)))
         else [])
      in detect_loop type_map first_line)"

section \<open>parse_mmdc_errors\<close>

definition error_keywords :: "string list" where
  "error_keywords = [''error'', ''parse'', ''syntax'', ''invalid'', ''unexpected'']"

text \<open>The \<open>for line in stderr.split('\n')\<close> loop; \<open>errors\<close> is the list it appends to.\<close>

fun parse_loop :: "string list \<Rightarrow> string list \<Rightarrow> string list" where
  "parse_loop errors [] = errors"
| "parse_loop errors (line # rest) =
     (let line_lower = py_lower line
      in if list_ex (\<lambda>keyword. py_in keyword line_lower) error_keywords
         then (let clean_error = py_strip line
               in if clean_error \<noteq> [] \<and> \<not> py_startswith clean_error ''(''
                  then parse_loop (errors @ [clean_error]) rest
                  else parse_loop errors rest)
         else parse_loop errors rest)"

definition parse_mmdc_errors :: "string \<Rightarrow> string list" where
  "parse_mmdc_errors stderr =
     (let errors = parse_loop [] (py_split_nl stderr)
      in if errors \<noteq> [] then errors else [''Syntax error in diagram''])"

section \<open>The operating system\<close>

text \<open>
  \<open>validate_diagram\<close> creates temporary files, writes to one of them, starts a
  subprocess and deletes the files again.  What these calls do is decided by the
  operating system, so it is a parameter of the model (\<open>os_env\<close>), and the part of the
  machine the claims speak about is an explicit state (\<open>world\<close>): the paths that exist on
  disk, the temporary files this process has created, and the \<open>subprocess.run\<close> calls
  it has made, each with its \<open>timeout\<close> argument.

  An exception is a value.  The handlers of the source tell three classes apart;
  every exception carries the text \<open>str(e)\<close>.
\<close>

datatype py_exn =
    TimeoutExpired string
  | FileNotFoundError string
  | OtherException string

fun py_str :: "py_exn \<Rightarrow> string" where
  "py_str (TimeoutExpired m) = m"
| "py_str (FileNotFoundError m) = m"
| "py_str (OtherException m) = m"

text \<open>The \<open>CompletedProcess\<close> fields the source reads.\<close>

record completed_process =
  returncode :: int
  proc_stderr :: string

record world =
  files :: "string set"
  created :: "string list"
  runs :: "(string list \<times> nat) list"

text \<open>
  \<^item> \<open>tmp_create suffix fs\<close>: \<open>tempfile.NamedTemporaryFile(suffix=suffix, delete=False)\<close>
    on a disk holding \<open>fs\<close>: the name of the new file, or the exception raised.
  \<^item> \<open>f_write name content\<close>: \<open>f.write(content)\<close>; \<open>Some e\<close> when it raises \<open>e\<close>
    (the text cannot be encoded, the disk is full).
  \<^item> \<open>f_close name\<close>: closing the file when the \<open>with\<close> block is left.
  \<^item> \<open>run cmd timeout fs\<close>: \<open>subprocess.run(cmd, capture_output=True, text=True,
    timeout=timeout)\<close>: the completed process or the exception raised, and the disk
    the child process leaves behind.
  \<^item> \<open>f_unlink p fs\<close>: \<open>os.unlink(p)\<close> on a disk holding \<open>fs\<close>: \<open>None\<close> when the
    file is deleted, \<open>Some e\<close> when the call raises \<open>e\<close> (\<open>FileNotFoundError\<close> for a
    path that is not there, \<open>PermissionError\<close> and the other \<open>OSError\<close>s as
    \<open>OtherException\<close>).
  \<^item> \<open>read_file path\<close>: \<open>open(path, 'r')\<close> followed by \<open>f.read()\<close>.
  \<^item> \<open>stdout_fate text\<close>: what becomes of \<open>print(text)\<close> on standard output, which
    is buffered: the text is delivered; or \<open>print\<close> returns and the interpreter cannot
    flush the buffer when it exits (a full disk, a closed pipe); or \<open>print\<close> itself
    raises, the flag telling whether the flush at exit fails as well.
\<close>

text \<open>What \<open>json.dumps\<close> produces, and what the process prints: plain text,
  \<open>json.dumps(obj, indent=n)\<close>, or the interpreter's report of an exception nothing
  has caught.\<close>

datatype json =
    JBool bool
  | JString string
  | JArray "json list"
  | JObject "(string \<times> json) list"

datatype printed = Text string | Json_dumps "nat option" json | Traceback py_exn

datatype stdout_fate = Delivered | Flush_fails py_exn | Print_raises py_exn bool

record os_env =
  tmp_create :: "string \<Rightarrow> string set \<Rightarrow> py_exn + string"
  f_write :: "string \<Rightarrow> string \<Rightarrow> py_exn option"
  f_close :: "string \<Rightarrow> py_exn option"
  run :: "string list \<Rightarrow> nat \<Rightarrow> string set \<Rightarrow> (py_exn + completed_process) \<times> string set"
  f_unlink :: "string \<Rightarrow> string set \<Rightarrow> py_exn option"
  read_file :: "string \<Rightarrow> py_exn + string"
  stdout_fate :: "printed \<Rightarrow> stdout_fate"

section \<open>validate_diagram\<close>

text \<open>The dictionary every \<open>return\<close> of \<open>validate_diagram\<close> builds, with its four keys.\<close>

record validation =
  valid :: bool
  errors :: "string list"
  warnings :: "string list"
  diagram_type :: string

text \<open>
  The first \<open>with\<close> block: create the file, write the content, assign
  \<open>temp_input\<close>, close.  The result is \<open>Inr name\<close> when the block completes, and
  \<open>Inl (e, t)\<close> when it raises \<open>e\<close>, \<open>t\<close> being the value \<open>temp_input\<close> has then.  A
  file that was created stays on disk (\<open>delete=False\<close>).  When \<open>f.write\<close> raises,
  leaving the block still closes the file, and an exception of the close replaces the
  one of the write.
\<close>

definition with_temp_input ::
  "os_env \<Rightarrow> string \<Rightarrow> world \<Rightarrow> (py_exn \<times> string option + string) \<times> world" where
  "with_temp_input env content w =
     (case tmp_create env ''.mmd'' (files w) of
        Inl e \<Rightarrow> (Inl (e, None), w)
      | Inr name \<Rightarrow>
          (let w' = w\<lparr>files := insert name (files w), created := created w @ [name]\<rparr>
           in case f_write env name content of
                Some e \<Rightarrow>
                  (case f_close env name of
                     Some e' \<Rightarrow> (Inl (e', None), w')
                   | None \<Rightarrow> (Inl (e, None), w'))
              | None \<Rightarrow>
                  (case f_close env name of
                     Some e' \<Rightarrow> (Inl (e', Some name), w')
                   | None \<Rightarrow> (Inr name, w'))))"

text \<open>The second \<open>with\<close> block: create the file, assign \<open>temp_output\<close>, close.\<close>

definition with_temp_output ::
  "os_env \<Rightarrow> world \<Rightarrow> (py_exn \<times> string option + string) \<times> world" where
  "with_temp_output env w =
     (case tmp_create env ''.svg'' (files w) of
        Inl e \<Rightarrow> (Inl (e, None), w)
      | Inr name \<Rightarrow>
          (let w' = w\<lparr>files := insert name (files w), created := created w @ [name]\<rparr>
           in case f_close env name of
                Some e' \<Rightarrow> (Inl (e', Some name), w')
              | None \<Rightarrow> (Inr name, w')))"

definition mmdc_command :: "string \<Rightarrow> string \<Rightarrow> string list" where
  "mmdc_command temp_input temp_output =
     [''npx'', ''-y'', ''@mermaid-js/mermaid-cli@latest'',
      ''-i'', temp_input, ''-o'', temp_output]"

definition subprocess_run ::
  "os_env \<Rightarrow> string list \<Rightarrow> nat \<Rightarrow> world \<Rightarrow> (py_exn + completed_process) \<times> world" where
  "subprocess_run env cmd timeout w =
     (case run env cmd timeout (files w) of
        (r, fs) \<Rightarrow> (r, w\<lparr>files := fs, runs := runs w @ [(cmd, timeout)]\<rparr>))"

text \<open>
  The body of the \<open>try\<close>.  Beside what it returns or raises, the \<open>finally\<close> clause
  needs the two local variables as the body leaves them.
\<close>

record frame =
  outcome :: "py_exn + validation"
  temp_input :: "string option"
  temp_output :: "string option"
  world_after :: world

definition try_body :: "os_env \<Rightarrow> string \<Rightarrow> world \<Rightarrow> frame" where
  "try_body env content w =
     (case with_temp_input env content w of
        (Inl (e, tin), w1) \<Rightarrow>
          \<lparr>outcome = Inl e, temp_input = tin, temp_output = None, world_after = w1\<rparr>
      | (Inr tin, w1) \<Rightarrow>
          (case with_temp_output env w1 of
             (Inl (e, tout), w2) \<Rightarrow>
               \<lparr>outcome = Inl e, temp_input = Some tin, temp_output = tout, world_after = w2\<rparr>
           | (Inr tout, w2) \<Rightarrow>
               (case subprocess_run env (mmdc_command tin tout) 10 w2 of
                  (Inl e, w3) \<Rightarrow>
                    \<lparr>outcome = Inl e, temp_input = Some tin, temp_output = Some tout,
                     world_after = w3\<rparr>
                | (Inr result, w3) \<Rightarrow>
                    (let validation =
                           \<lparr>valid = (returncode result = 0), errors = [], warnings = [],
                            diagram_type = detect_diagram_type content\<rparr>;
                         validation =
                           (if returncode result \<noteq> 0
                            then validation\<lparr>errors := parse_mmdc_errors (proc_stderr result)\<rparr>
                            else validation)
                     in \<lparr>outcome = Inr validation, temp_input = Some tin,
                         temp_output = Some tout, world_after = w3\<rparr>))))"

text \<open>The three \<open>except\<close> clauses, in the order of the source.\<close>

fun except_clauses :: "string \<Rightarrow> py_exn \<Rightarrow> validation" where
  "except_clauses content (TimeoutExpired m) =
     \<lparr>valid = False,
      errors = [''Validation timeout (diagram too complex or infinite loop)''],
      warnings = [], diagram_type = detect_diagram_type content\<rparr>"
| "except_clauses content (FileNotFoundError m) =
     \<lparr>valid = False,
      errors = [''mermaid-cli not available - npx command not found''],
      warnings = [], diagram_type = detect_diagram_type content\<rparr>"
| "except_clauses content (OtherException m) =
     \<lparr>valid = False,
      errors = [''Validation error: '' @ m],
      warnings = [], diagram_type = detect_diagram_type content\<rparr>"

text \<open>
  \<open>Path(p).unlink(missing_ok=True)\<close>: \<open>os.unlink\<close> inside a handler that swallows
  \<open>FileNotFoundError\<close> and nothing else.  After a deletion, and after the operating
  system has said that the path is not there, the path is not on disk; any other
  exception leaves the disk as it is and propagates.
\<close>

definition unlink_missing_ok :: "os_env \<Rightarrow> string \<Rightarrow> world \<Rightarrow> py_exn option \<times> world" where
  "unlink_missing_ok env p w =
     (case f_unlink env p (files w) of
        None \<Rightarrow> (None, w\<lparr>files := files w - {p}\<rparr>)
      | Some (FileNotFoundError m) \<Rightarrow> (None, w\<lparr>files := files w - {p}\<rparr>)
      | Some e \<Rightarrow> (Some e, w))"

text \<open>
  The \<open>finally\<close> clause; a temporary file's name is never the empty string, so
  \<open>if temp_input:\<close> asks whether the variable was assigned.  The two deletions stand
  unguarded: when the first raises, the second is not attempted, and the exception
  leaves the clause.
\<close>

definition finally_clause ::
  "os_env \<Rightarrow> string option \<Rightarrow> string option \<Rightarrow> world \<Rightarrow> py_exn option \<times> world" where
  "finally_clause env tin tout w =
     (case (case tin of Some p \<Rightarrow> unlink_missing_ok env p w | None \<Rightarrow> (None, w)) of
        (Some e, w1) \<Rightarrow> (Some e, w1)
      | (None, w1) \<Rightarrow>
          (case tout of Some p \<Rightarrow> unlink_missing_ok env p w1 | None \<Rightarrow> (None, w1)))"

text \<open>
  \<open>validate_diagram\<close> returns a dictionary (\<open>Inr\<close>) or raises (\<open>Inl\<close>).  Every
  exception of the \<open>try\<close> body is turned into a dictionary by an \<open>except\<close> clause; an
  exception of the \<open>finally\<close> clause replaces the value that was about to be returned.
\<close>

definition validate_diagram ::
  "os_env \<Rightarrow> string \<Rightarrow> world \<Rightarrow> (py_exn + validation) \<times> world" where
  "validate_diagram env content w =
     (if content = [] \<or> py_strip content = []
      then (Inr \<lparr>valid = False, errors = [''Empty diagram content''], warnings = [],
                 diagram_type = ''unknown''\<rparr>, w)
      else (let fr = try_body env content w;
                result = (case outcome fr of
                            Inr validation \<Rightarrow> validation
                          | Inl e \<Rightarrow> except_clauses content e)
            in case finally_clause env (temp_input fr) (temp_output fr) (world_after fr) of
                 (Some e, w') \<Rightarrow> (Inl e, w')
               | (None, w') \<Rightarrow> (Inr result, w')))"

section \<open>main\<close>

text \<open>What \<open>json.dumps\<close> makes of the result dictionary.\<close>

definition to_json :: "validation \<Rightarrow> json" where
  "to_json r =
     JObject [(''valid'', JBool (valid r)),
              (''errors'', JArray (map JString (errors r))),
              (''warnings'', JArray (map JString (warnings r))),
              (''diagram_type'', JString (diagram_type r))]"

text \<open>What has reached the two streams when the process ends, and its exit status.\<close>

record process =
  stdout :: "printed list"
  stderr :: "printed list"
  exit_code :: int

text \<open>
  Lines 180 to 189 of the source: validate, print the result, exit.  An exception that
  \<open>validate_diagram\<close> or \<open>print\<close> raises is caught by nothing: the interpreter prints
  the traceback on standard error and the exit status is 1.  When the interpreter
  cannot flush standard output as it exits, the exit status is 120, whatever
  \<open>sys.exit\<close> was given.
\<close>

definition main_validate :: "os_env \<Rightarrow> string \<Rightarrow> world \<Rightarrow> process \<times> world" where
  "main_validate env content w =
     (case validate_diagram env content w of
        (Inl e, w') \<Rightarrow>
          (\<lparr>stdout = [], stderr = [Traceback e], exit_code = 1\<rparr>, w')
      | (Inr result, w') \<Rightarrow>
          (let text = Json_dumps (Some 2) (to_json result)
           in case stdout_fate env text of
                Delivered \<Rightarrow>
                  (\<lparr>stdout = [text], stderr = [],
                    exit_code = (if \<not> valid result then 1 else 0)\<rparr>, w')
              | Flush_fails e \<Rightarrow>
                  (\<lparr>stdout = [], stderr = [Traceback e], exit_code = 120\<rparr>, w')
              | Print_raises e flush_fails \<Rightarrow>
                  (\<lparr>stdout = [], stderr = [Traceback e],
                    exit_code = (if flush_fails then 120 else 1)\<rparr>, w')))"

text \<open>\<open>argv\<close> is \<open>sys.argv\<close>, \<open>stdin_text\<close> what \<open>sys.stdin.read()\<close> returns.\<close>

definition main :: "os_env \<Rightarrow> string list \<Rightarrow> string \<Rightarrow> world \<Rightarrow> process \<times> world" where
  "main env argv stdin_text w =
     (if length argv > 1 \<and> argv ! 1 = ''--stdin''
      then main_validate env stdin_text w
      else if length argv > 1
      then (let file_path = argv ! 1
            in case read_file env file_path of
                 Inr content \<Rightarrow> main_validate env content w
               | Inl (FileNotFoundError m) \<Rightarrow>
                   (\<lparr>stdout = [],
                     stderr = [Json_dumps None (to_json
                        \<lparr>valid = False, errors = [''File not found: '' @ file_path],
                         warnings = [], diagram_type = ''unknown''\<rparr>)],
                     exit_code = 2\<rparr>, w)
               | Inl e \<Rightarrow>
                   (\<lparr>stdout = [],
                     stderr = [Json_dumps None (to_json
                        \<lparr>valid = False, errors = [''Error reading file: '' @ py_str e],
                         warnings = [], diagram_type = ''unknown''\<rparr>)],
                     exit_code = 2\<rparr>, w))
      else (\<lparr>stdout = [],
             stderr = [Text ''Usage: validate_mermaid.py <diagram.mmd>'',
                       Text ''       echo 'graph TD; A-->B' | validate_mermaid.py --stdin''],
             exit_code = 2\<rparr>, w))"

section \<open>The specification's wording\<close>

text \<open>
  The Error-Line Extractor as the specification describes it: a line qualifies when its
  lowercased form contains one of the keywords and its trimmed form is non-empty and
  does not start with an opening parenthesis; the result is the trimmed qualifying
  lines in input order, or the fallback message when there is none.
\<close>

definition spec_qualifies :: "string \<Rightarrow> bool" where
  "spec_qualifies line =
     ((\<exists>k\<in>set error_keywords. sublist k (py_lower line)) \<and>
      py_strip line \<noteq> [] \<and> \<not> prefix ''('' (py_strip line))"

definition spec_extract_errors :: "string \<Rightarrow> string list" where
  "spec_extract_errors text =
     (let kept = map py_strip (filter spec_qualifies (py_split_nl text))
      in if kept = [] then [''Syntax error in diagram''] else kept)"

text \<open>
  The Detector's input as the specification describes it: the first line of the text
  that has a character other than whitespace (the empty string when there is none),
  then lowercased, with spaces and hyphens removed.
\<close>

definition spec_first_nonempty_line :: "string \<Rightarrow> string" where
  "spec_first_nonempty_line content =
     (case filter (\<lambda>l. py_strip l \<noteq> []) (py_split_nl content) of
        [] \<Rightarrow> []
      | l # _ \<Rightarrow> l)"

definition spec_normalized :: "string \<Rightarrow> string" where
  "spec_normalized l = filter (\<lambda>c. c \<noteq> CHR '' '' \<and> c \<noteq> CHR ''-'') (py_lower l)"

text \<open>The operating system refuses a deletion: \<open>os.unlink\<close> raises an exception other
  than \<open>FileNotFoundError\<close>.\<close>

definition deletion_refused :: "os_env \<Rightarrow> string \<Rightarrow> string set \<Rightarrow> bool" where
  "deletion_refused env p fs =
     (case f_unlink env p fs of
        None \<Rightarrow> False
      | Some (FileNotFoundError m) \<Rightarrow> False
      | Some e \<Rightarrow> True)"

text \<open>A line that the extractor returns unchanged when it is given alone.\<close>

definition settled :: "string \<Rightarrow> bool" where
  "settled e = (spec_qualifies e \<and> py_strip e = e \<and> NL \<notin> set e)"

section \<open>Concrete environments\<close>

text \<open>
  A machine on which every temporary file is created, written, closed and deleted
  without error, the renderer ends as \<open>r\<close> says, leaving the disk as it found it, and
  everything printed is delivered.
\<close>

definition plain_env :: "(py_exn + completed_process) \<Rightarrow> os_env" where
  "plain_env r =
     \<lparr>tmp_create = (\<lambda>suffix fs. Inr (''/tmp/tmpa1b2c3'' @ suffix)),
      f_write = (\<lambda>name content. None),
      f_close = (\<lambda>name. None),
      run = (\<lambda>cmd timeout fs. (r, fs)),
      f_unlink = (\<lambda>p fs. None),
      read_file = (\<lambda>path. Inl (FileNotFoundError path)),
      stdout_fate = (\<lambda>text. Delivered)\<rparr>"

text \<open>The same machine, on which \<open>f.write\<close> raises (for instance \<open>UnicodeEncodeError\<close>
  for a text with a lone surrogate, or \<open>OSError\<close> on a full disk).\<close>

definition write_fails_env :: os_env where
  "write_fails_env =
     (plain_env (Inr \<lparr>returncode = 0, proc_stderr = []\<rparr>))
       \<lparr>f_write := (\<lambda>name content. Some (OtherException ''write failed''))\<rparr>"

text \<open>A machine without \<open>npx\<close>: \<open>subprocess.run\<close> raises \<open>FileNotFoundError\<close>.\<close>

definition no_npx_env :: os_env where
  "no_npx_env = plain_env (Inl (FileNotFoundError ''No such file or directory: npx''))"


text \<open>A machine on which the diagram renders and standard output is a full disk: the
  result stays in the buffer and cannot be flushed when the interpreter exits.\<close>

definition stdout_full_env :: os_env where
  "stdout_full_env =
     (plain_env (Inr \<lparr>returncode = 0, proc_stderr = []\<rparr>))
       \<lparr>stdout_fate := (\<lambda>text. Flush_fails (OtherException ''No space left on device''))\<rparr>"

definition empty_world :: world where
  "empty_world = \<lparr>files = {}, created = [], runs = []\<rparr>"

text \<open>A renderer's standard error: a diagnostic, an annotation in parentheses, a line
  without any keyword, and an indented diagnostic.\<close>

definition sample_stderr :: string where
  "sample_stderr =
     ''Error: bad token'' @ [NL] @ ''  (error at line 2)'' @ [NL] @
     ''rendering'' @ [NL] @ ''  Parse failure  ''"

section \<open>Facts about the string operations\<close>

lemma isspace_lower: "py_isspace (py_lower_char c) = py_isspace c"
  by (simp add: py_isspace_def py_lower_char_def Let_def)

lemma isspace_NL: "py_isspace NL"
  by (simp add: py_isspace_def NL_def)

lemma split_nl_nonempty: "py_split_nl s \<noteq> []"
  by (induction s) (auto split: list.splits)

lemma hd_split_nl: "hd (py_split_nl s) = takeWhile (\<lambda>c. c \<noteq> NL) s"
  by (induction s) (auto split: list.splits simp: split_nl_nonempty)

lemma split_nl_no_NL: "l \<in> set (py_split_nl s) \<Longrightarrow> NL \<notin> set l"
  by (induction s arbitrary: l) (auto split: list.splits if_splits)

lemma split_nl_line: "NL \<notin> set l \<Longrightarrow> py_split_nl l = [l]"
  by (induction l) auto

lemma split_nl_append: "NL \<notin> set l \<Longrightarrow> py_split_nl (l @ NL # r) = l # py_split_nl r"
  by (induction l) auto

lemma split_join: "ls \<noteq> [] \<Longrightarrow> \<forall>l\<in>set ls. NL \<notin> set l \<Longrightarrow> py_split_nl (py_join_nl ls) = ls"
  by (induction ls rule: py_join_nl.induct) (auto simp: split_nl_line split_nl_append)

lemma rstrip_decomp: "\<exists>b. s = py_rstrip s @ b \<and> (\<forall>c\<in>set b. py_isspace c)"
proof -
  have "rev s = takeWhile py_isspace (rev s) @ dropWhile py_isspace (rev s)" by simp
  then have "s = rev (dropWhile py_isspace (rev s)) @ rev (takeWhile py_isspace (rev s))"
    by (metis rev_append rev_rev_ident)
  moreover have "\<forall>c\<in>set (rev (takeWhile py_isspace (rev s))). py_isspace c"
    by (auto dest: set_takeWhileD)
  ultimately show ?thesis unfolding py_rstrip_def by blast
qed

lemma lstrip_decomp: "\<exists>a. s = a @ py_lstrip s \<and> (\<forall>c\<in>set a. py_isspace c)"
proof -
  have "s = takeWhile py_isspace s @ py_lstrip s" by (simp add: py_lstrip_def)
  moreover have "\<forall>c\<in>set (takeWhile py_isspace s). py_isspace c"
    by (auto dest: set_takeWhileD)
  ultimately show ?thesis by blast
qed

lemma strip_decomp:
  "\<exists>a b. s = a @ py_strip s @ b \<and> (\<forall>c\<in>set a. py_isspace c) \<and> (\<forall>c\<in>set b. py_isspace c)"
proof -
  obtain a where a: "s = a @ py_lstrip s" "\<forall>c\<in>set a. py_isspace c"
    using lstrip_decomp by blast
  obtain b where b: "py_lstrip s = py_rstrip (py_lstrip s) @ b" "\<forall>c\<in>set b. py_isspace c"
    using rstrip_decomp by blast
  have "s = a @ py_strip s @ b" using a(1) b(1) by (simp add: py_strip_def)
  with a(2) b(2) show ?thesis by blast
qed

lemma strip_Nil_iff: "py_strip s = [] \<longleftrightarrow> (\<forall>c\<in>set s. py_isspace c)"
proof
  assume "py_strip s = []"
  then show "\<forall>c\<in>set s. py_isspace c"
    using strip_decomp[of s] by auto
next
  assume "\<forall>c\<in>set s. py_isspace c"
  then have "py_lstrip s = []" by (simp add: py_lstrip_def)
  then show "py_strip s = []" by (simp add: py_strip_def py_rstrip_def)
qed

lemma lstrip_hd: "py_lstrip s \<noteq> [] \<Longrightarrow> \<not> py_isspace (hd (py_lstrip s))"
  unfolding py_lstrip_def by (rule hd_dropWhile)

lemma rstrip_last: "py_rstrip s \<noteq> [] \<Longrightarrow> \<not> py_isspace (last (py_rstrip s))"
  unfolding py_rstrip_def by (simp add: last_rev hd_dropWhile)

lemma rstrip_fix: "s \<noteq> [] \<Longrightarrow> \<not> py_isspace (last s) \<Longrightarrow> py_rstrip s = s"
  unfolding py_rstrip_def by (cases s rule: rev_cases) auto

lemma rstrip_Nil [simp]: "py_rstrip [] = []"
  by (simp add: py_rstrip_def)

lemma lstrip_fix: "s \<noteq> [] \<Longrightarrow> \<not> py_isspace (hd s) \<Longrightarrow> py_lstrip s = s"
  unfolding py_lstrip_def by (cases s) auto

lemma rstrip_hd: "py_rstrip s \<noteq> [] \<Longrightarrow> hd (py_rstrip s) = hd s"
  by (metis rstrip_decomp hd_append2)

lemma strip_hd: "py_strip s \<noteq> [] \<Longrightarrow> \<not> py_isspace (hd (py_strip s))"
  by (metis py_strip_def rstrip_hd lstrip_hd rstrip_Nil)

lemma strip_last: "py_strip s \<noteq> [] \<Longrightarrow> \<not> py_isspace (last (py_strip s))"
  unfolding py_strip_def by (rule rstrip_last)

lemma strip_fix: "s \<noteq> [] \<Longrightarrow> \<not> py_isspace (hd s) \<Longrightarrow> \<not> py_isspace (last s) \<Longrightarrow> py_strip s = s"
  by (simp add: py_strip_def lstrip_fix rstrip_fix)

lemma strip_idem: "py_strip (py_strip s) = py_strip s"
proof (cases "py_strip s = []")
  case True
  have "py_strip [] = []" by (simp add: py_strip_def py_lstrip_def py_rstrip_def)
  with True show ?thesis by simp
next
  case False
  then show ?thesis by (simp add: strip_fix strip_hd strip_last)
qed

lemma sublist_pad_left:
  assumes "\<forall>c\<in>set a. P c" "\<forall>c\<in>set k. \<not> P c" "k \<noteq> []"
  shows "sublist k (a @ y) = sublist k y"
  using assms
proof (induction a)
  case Nil
  then show ?case by simp
next
  case (Cons x a)
  have "\<not> prefix k (x # a @ y)"
    using Cons.prems by (cases k) auto
  with Cons show ?case by (simp add: sublist_Cons_right)
qed

lemma sublist_pad_right:
  assumes "\<forall>c\<in>set b. P c" "\<forall>c\<in>set k. \<not> P c" "k \<noteq> []"
  shows "sublist k (y @ b) = sublist k y"
proof -
  have "sublist (rev k) (rev b @ rev y) = sublist (rev k) (rev y)"
    using assms by (intro sublist_pad_left[where P = P]) auto
  then show ?thesis by (metis rev_append sublist_rev)
qed

lemma sublist_pad:
  assumes "\<forall>c\<in>set a. P c" "\<forall>c\<in>set b. P c" "\<forall>c\<in>set k. \<not> P c" "k \<noteq> []"
  shows "sublist k (a @ y @ b) = sublist k y"
  using assms by (simp add: sublist_pad_left[where P = P] sublist_pad_right[where P = P])

section \<open>The Error-Line Extractor\<close>

lemma parse_loop_filter:
  "parse_loop acc ls = acc @ map py_strip (filter spec_qualifies ls)"
  by (induction ls arbitrary: acc)
     (auto simp: spec_qualifies_def py_in_def py_startswith_def list_ex_iff Let_def)

lemma parse_refines: "parse_mmdc_errors s = spec_extract_errors s"
  by (simp add: parse_mmdc_errors_def spec_extract_errors_def parse_loop_filter Let_def)

lemma error_keywords_plain:
  "k \<in> set error_keywords \<Longrightarrow> k \<noteq> [] \<and> (\<forall>c\<in>set k. \<not> py_isspace c)"
  by (auto simp: error_keywords_def py_isspace_def)

lemma lower_append: "py_lower (a @ b) = py_lower a @ py_lower b"
  by (simp add: py_lower_def)

lemma lower_space: "\<forall>c\<in>set a. py_isspace c \<Longrightarrow> \<forall>c\<in>set (py_lower a). py_isspace c"
  by (auto simp: py_lower_def isspace_lower)

lemma keyword_in_strip:
  assumes "k \<noteq> []" "\<forall>c\<in>set k. \<not> py_isspace c"
  shows "sublist k (py_lower (py_strip l)) = sublist k (py_lower l)"
proof -
  obtain a b where ab: "l = a @ py_strip l @ b" "\<forall>c\<in>set a. py_isspace c" "\<forall>c\<in>set b. py_isspace c"
    using strip_decomp by blast
  have "sublist k (py_lower a @ py_lower (py_strip l) @ py_lower b) = sublist k (py_lower (py_strip l))"
    using assms ab(2,3) by (intro sublist_pad[where P = py_isspace] lower_space) auto
  moreover have "py_lower l = py_lower a @ py_lower (py_strip l) @ py_lower b"
    by (subst ab(1)) (simp only: lower_append)
  ultimately show ?thesis by simp
qed

lemma qualifying_strip: "spec_qualifies l \<Longrightarrow> spec_qualifies (py_strip l)"
  unfolding spec_qualifies_def
  using keyword_in_strip error_keywords_plain by (auto simp: strip_idem)

lemma strip_no_NL: "NL \<notin> set l \<Longrightarrow> NL \<notin> set (py_strip l)"
  using strip_decomp[of l] by (metis Un_iff set_append)

lemma settled_fallback: "settled ''Syntax error in diagram''"
  unfolding settled_def spec_qualifies_def error_keywords_def
  by (intro conjI) code_simp+

lemma settled_kept: "\<forall>e\<in>set (map py_strip (filter spec_qualifies (py_split_nl s))). settled e"
  by (auto simp: settled_def qualifying_strip strip_idem dest: split_nl_no_NL strip_no_NL)

lemma settled_result: "\<forall>e\<in>set (parse_mmdc_errors s). settled e"
  unfolding parse_refines spec_extract_errors_def Let_def
  using settled_kept[of s] settled_fallback by (auto split: if_splits)

lemma parse_nonempty: "parse_mmdc_errors s \<noteq> []"
  by (simp add: parse_mmdc_errors_def Let_def)

lemma parse_settled:
  assumes "ls \<noteq> []" "\<forall>e\<in>set ls. settled e"
  shows "parse_mmdc_errors (py_join_nl ls) = ls"
proof -
  have "py_split_nl (py_join_nl ls) = ls"
    using assms by (intro split_join) (auto simp: settled_def)
  moreover have "filter spec_qualifies ls = ls"
    using assms(2) by (auto simp: settled_def filter_id_conv)
  moreover have "map py_strip ls = ls"
    using assms(2) by (auto simp: settled_def map_idI)
  ultimately show ?thesis using assms(1)
    by (simp add: parse_refines spec_extract_errors_def Let_def)
qed

text \<open>
  Claim C6.  For every standard-error text, \<open>parse_mmdc_errors\<close> returns what the
  specification describes: the trimmed forms, in input order, of the lines whose
  lowercased form contains one of the five keywords, whose trimmed form is not empty
  and does not start with an opening parenthesis.  No returned line starts with an
  opening parenthesis, and when no line qualifies the result is the single message
  \<open>Syntax error in diagram\<close>.
\<close>

theorem parse_mmdc_errors_extracts:
  "parse_mmdc_errors s = spec_extract_errors s \<and>
   (\<forall>e\<in>set (parse_mmdc_errors s). \<not> py_startswith e ''('') \<and>
   ((\<forall>line\<in>set (py_split_nl s). \<not> spec_qualifies line) \<longrightarrow>
      parse_mmdc_errors s = [''Syntax error in diagram''])"
proof (intro conjI impI)
  show "parse_mmdc_errors s = spec_extract_errors s" by (rule parse_refines)
  show "\<forall>e\<in>set (parse_mmdc_errors s). \<not> py_startswith e ''(''"
    using settled_result[of s] by (auto simp: settled_def spec_qualifies_def py_startswith_def)
  assume "\<forall>line\<in>set (py_split_nl s). \<not> spec_qualifies line"
  then have "filter spec_qualifies (py_split_nl s) = []" by (simp add: filter_empty_conv)
  then show "parse_mmdc_errors s = [''Syntax error in diagram'']"
    by (simp add: parse_refines spec_extract_errors_def)
qed

theorem parse_mmdc_errors_extracts_witness:
  "parse_mmdc_errors sample_stderr = [''Error: bad token'', ''Parse failure''] \<and>
   ''(error at line 2)'' \<notin> set (parse_mmdc_errors sample_stderr) \<and>
   parse_mmdc_errors ''rendering'' = [''Syntax error in diagram'']"
proof -
  have a: "spec_extract_errors sample_stderr = [''Error: bad token'', ''Parse failure'']"
    by code_simp
  have b: "py_startswith ''(error at line 2)'' ''(''"
    by code_simp
  have c: "\<forall>line\<in>set (py_split_nl ''rendering''). \<not> spec_qualifies line"
    by code_simp
  from parse_mmdc_errors_extracts[of sample_stderr] a b
  have "parse_mmdc_errors sample_stderr = [''Error: bad token'', ''Parse failure'']"
    "''(error at line 2)'' \<notin> set (parse_mmdc_errors sample_stderr)"
    by auto
  moreover from parse_mmdc_errors_extracts[of "''rendering''"] c
  have "parse_mmdc_errors ''rendering'' = [''Syntax error in diagram'']"
    by blast
  ultimately show ?thesis by blast
qed

text \<open>
  Claim C9.  Extraction is idempotent: joining the returned lines with newlines and
  extracting again gives the same list, the fallback message included.
\<close>

theorem parse_mmdc_errors_idempotent:
  "parse_mmdc_errors (py_join_nl (parse_mmdc_errors s)) = parse_mmdc_errors s"
  by (rule parse_settled[OF parse_nonempty settled_result])

theorem parse_mmdc_errors_idempotent_witness:
  "parse_mmdc_errors (py_join_nl (parse_mmdc_errors sample_stderr)) = [''Error: bad token'', ''Parse failure'']
   \<and> parse_mmdc_errors (py_join_nl (parse_mmdc_errors ''rendering'')) = [''Syntax error in diagram'']"
proof -
  have "parse_mmdc_errors sample_stderr = [''Error: bad token'', ''Parse failure'']"
    by code_simp
  moreover have "parse_mmdc_errors ''rendering'' = [''Syntax error in diagram'']"
    by code_simp
  ultimately show ?thesis
    using parse_mmdc_errors_idempotent[of sample_stderr] parse_mmdc_errors_idempotent[of "''rendering''"]
    by simp
qed

section \<open>The Diagram Type Detector\<close>

lemma strip_Cons_space: "py_isspace x \<Longrightarrow> py_strip (x # l) = py_strip l"
  by (simp add: py_strip_def py_lstrip_def)

lemma first_line_NL: "spec_first_nonempty_line (NL # cs) = spec_first_nonempty_line cs"
  by (simp add: spec_first_nonempty_line_def py_strip_def py_lstrip_def py_rstrip_def)

lemma first_line_space:
  assumes "py_isspace x" "x \<noteq> NL"
  shows "\<exists>ws. (\<forall>c\<in>set ws. py_isspace c) \<and> spec_first_nonempty_line (x # cs) = ws @ spec_first_nonempty_line cs"
proof (cases "py_split_nl cs")
  case Nil
  then show ?thesis using split_nl_nonempty by blast
next
  case (Cons l ls)
  show ?thesis
  proof (cases "py_strip l = []")
    case True
    then have "spec_first_nonempty_line (x # cs) = spec_first_nonempty_line cs"
      using assms Cons by (simp add: spec_first_nonempty_line_def strip_Cons_space)
    then show ?thesis by (intro exI[of _ "[]"]) simp
  next
    case False
    then have "spec_first_nonempty_line (x # cs) = [x] @ spec_first_nonempty_line cs"
      using assms Cons by (simp add: spec_first_nonempty_line_def strip_Cons_space)
    then show ?thesis using assms(1) by (intro exI[of _ "[x]"]) simp
  qed
qed

lemma first_line_start:
  assumes "d \<noteq> []" "\<not> py_isspace (hd d)"
  shows "spec_first_nonempty_line d = takeWhile (\<lambda>c. c \<noteq> NL) d"
proof -
  obtain l ls where sp: "py_split_nl d = l # ls"
    using split_nl_nonempty by (cases "py_split_nl d") auto
  have l: "l = takeWhile (\<lambda>c. c \<noteq> NL) d"
    using hd_split_nl[of d] sp by simp
  have "hd d \<noteq> NL" using assms(2) isspace_NL by auto
  then have "hd d \<in> set l" using assms(1) l by (cases d) auto
  then have "py_strip l \<noteq> []" using assms(2) by (auto simp: strip_Nil_iff)
  then show ?thesis using sp l by (simp add: spec_first_nonempty_line_def)
qed

lemma first_line_prefix:
  assumes "\<forall>c\<in>set pre. py_isspace c" "d \<noteq> []" "\<not> py_isspace (hd d)"
  shows "\<exists>ws. (\<forall>c\<in>set ws. py_isspace c) \<and>
           spec_first_nonempty_line (pre @ d) = ws @ takeWhile (\<lambda>c. c \<noteq> NL) d"
  using assms
proof (induction pre)
  case Nil
  then show ?case using first_line_start[of d] by (intro exI[of _ "[]"]) simp
next
  case (Cons x pre)
  then obtain ws where ws: "\<forall>c\<in>set ws. py_isspace c"
      "spec_first_nonempty_line (pre @ d) = ws @ takeWhile (\<lambda>c. c \<noteq> NL) d"
    by auto
  show ?case
  proof (cases "x = NL")
    case True
    then show ?thesis using ws by (intro exI[of _ ws]) (simp add: first_line_NL)
  next
    case False
    with Cons.prems obtain ws' where ws': "\<forall>c\<in>set ws'. py_isspace c"
        "spec_first_nonempty_line (x # pre @ d) = ws' @ spec_first_nonempty_line (pre @ d)"
      using first_line_space[of x "pre @ d"] by auto
    then show ?thesis using ws by (intro exI[of _ "ws' @ ws"]) auto
  qed
qed

lemma takeWhile_trailing:
  assumes "\<forall>c\<in>set b. py_isspace c"
  shows "\<exists>b'. (\<forall>c\<in>set b'. py_isspace c) \<and> takeWhile P (s @ b) = takeWhile P s @ b'"
proof (cases "\<forall>c\<in>set s. P c")
  case True
  then have eq: "takeWhile P s = s" by (simp add: takeWhile_eq_all_conv)
  have "takeWhile P (s @ b) = s @ takeWhile P b"
    using True by (simp add: takeWhile_append2)
  then have "takeWhile P (s @ b) = takeWhile P s @ takeWhile P b"
    by (simp only: eq)
  moreover have "\<forall>c\<in>set (takeWhile P b). py_isspace c"
    using assms by (auto dest: set_takeWhileD)
  ultimately show ?thesis by blast
next
  case False
  then obtain c where "c \<in> set s" "\<not> P c" by auto
  then have "takeWhile P (s @ b) = takeWhile P s"
    by (simp add: takeWhile_append1)
  then show ?thesis by (intro exI[of _ "[]"]) simp
qed

lemma first_line_decomp:
  assumes "py_strip c \<noteq> []"
  shows "\<exists>a b. (\<forall>x\<in>set a. py_isspace x) \<and> (\<forall>x\<in>set b. py_isspace x) \<and>
           spec_first_nonempty_line c = a @ takeWhile (\<lambda>x. x \<noteq> NL) (py_strip c) @ b"
proof -
  obtain pre where pre: "c = pre @ py_lstrip c" "\<forall>x\<in>set pre. py_isspace x"
    using lstrip_decomp by blast
  obtain b where b: "py_lstrip c = py_strip c @ b" "\<forall>x\<in>set b. py_isspace x"
    using rstrip_decomp[of "py_lstrip c"] by (auto simp: py_strip_def)
  have ne: "py_lstrip c \<noteq> []" using assms b(1) by auto
  obtain a where a: "\<forall>x\<in>set a. py_isspace x"
      "spec_first_nonempty_line (pre @ py_lstrip c) = a @ takeWhile (\<lambda>x. x \<noteq> NL) (py_lstrip c)"
    using first_line_prefix[OF pre(2) ne lstrip_hd[OF ne]] by blast
  obtain b' where b': "\<forall>x\<in>set b'. py_isspace x"
      "takeWhile (\<lambda>x. x \<noteq> NL) (py_strip c @ b) = takeWhile (\<lambda>x. x \<noteq> NL) (py_strip c) @ b'"
    using takeWhile_trailing[OF b(2)] by blast
  have "spec_first_nonempty_line c = a @ takeWhile (\<lambda>x. x \<noteq> NL) (py_strip c) @ b'"
    using a(2) b' pre(1) b(1) by metis
  with a(1) b'(1) show ?thesis by blast
qed

lemma first_line_blank: "py_strip c = [] \<Longrightarrow> spec_first_nonempty_line c = []"
proof -
  assume "py_strip c = []"
  then have sp: "\<forall>x\<in>set c. py_isspace x" by (simp add: strip_Nil_iff)
  have "set l \<subseteq> set c" if "l \<in> set (py_split_nl c)" for l
    using that
  proof (induction c arbitrary: l)
    case Nil
    then show ?case by simp
  next
    case (Cons x c)
    obtain l0 ls where sp: "py_split_nl c = l0 # ls"
      using split_nl_nonempty by (cases "py_split_nl c") auto
    have "set l0 \<subseteq> set c" "\<forall>l'\<in>set ls. set l' \<subseteq> set c"
      using Cons.IH sp by auto
    then show ?case using Cons.prems sp by (auto split: if_splits)
  qed
  then have "\<forall>l\<in>set (py_split_nl c). py_strip l = []"
    using sp by (auto simp: strip_Nil_iff)
  then have "filter (\<lambda>l. py_strip l \<noteq> []) (py_split_nl c) = []"
    by (simp add: filter_empty_conv)
  then show ?thesis by (simp add: spec_first_nonempty_line_def)
qed

lemma type_map_plain:
  "(k, t) \<in> set type_map \<Longrightarrow> k \<noteq> [] \<and> (\<forall>c\<in>set k. \<not> py_isspace c)"
  by (auto simp: type_map_def py_isspace_def)

lemma remove_remove:
  "py_remove CHR ''-'' (py_remove CHR '' '' s) = filter (\<lambda>c. c \<noteq> CHR '' '' \<and> c \<noteq> CHR ''-'') s"
  by (simp add: py_remove_def)

lemma spec_normalized_pad:
  assumes "\<forall>c\<in>set a. py_isspace c" "\<forall>c\<in>set b. py_isspace c"
    and "k \<noteq> []" "\<forall>c\<in>set k. \<not> py_isspace c"
  shows "sublist k (spec_normalized (a @ l @ b)) = sublist k (spec_normalized l)"
proof -
  have "spec_normalized (a @ l @ b) = spec_normalized a @ spec_normalized l @ spec_normalized b"
    by (simp add: spec_normalized_def lower_append)
  moreover have "\<forall>c\<in>set (spec_normalized a). py_isspace c" "\<forall>c\<in>set (spec_normalized b). py_isspace c"
    using assms(1,2) lower_space by (auto simp: spec_normalized_def)
  ultimately show ?thesis
    using assms(3,4) by (simp add: sublist_pad[where P = py_isspace])
qed

lemma detect_loop_cong:
  assumes "\<forall>(k, t)\<in>set tm. sublist k (py_remove CHR ''-'' (py_remove CHR '' '' fl1))
                        = sublist k (py_remove CHR ''-'' (py_remove CHR '' '' fl2))"
  shows "detect_loop tm fl1 = detect_loop tm fl2"
  using assms by (induction tm) (auto simp: py_in_def)

lemma detect_loop_unknown:
  assumes "\<forall>(k, t)\<in>set tm. \<not> sublist k (py_remove CHR ''-'' (py_remove CHR '' '' fl))"
  shows "detect_loop tm fl = ''unknown''"
  using assms by (induction tm) (auto simp: py_in_def)

lemma detect_by_line:
  "detect_diagram_type c = detect_loop type_map (py_lower (spec_first_nonempty_line c))"
proof (cases "py_strip c = []")
  case True
  then show ?thesis
    by (simp add: detect_diagram_type_def first_line_blank py_lower_def)
next
  case False
  let ?F = "takeWhile (\<lambda>x. x \<noteq> NL) (py_strip c)"
  obtain a b where ab: "\<forall>x\<in>set a. py_isspace x" "\<forall>x\<in>set b. py_isspace x"
      "spec_first_nonempty_line c = a @ ?F @ b"
    using first_line_decomp[OF False] by blast
  have "detect_loop type_map (py_lower ?F) = detect_loop type_map (py_lower (a @ ?F @ b))"
  proof (rule detect_loop_cong, clarify)
    fix k t assume "(k, t) \<in> set type_map"
    then have "k \<noteq> []" "\<forall>c\<in>set k. \<not> py_isspace c" using type_map_plain by auto
    then show "sublist k (py_remove CHR ''-'' (py_remove CHR '' '' (py_lower ?F)))
             = sublist k (py_remove CHR ''-'' (py_remove CHR '' '' (py_lower (a @ ?F @ b))))"
      using spec_normalized_pad[OF ab(1,2), of k ?F] by (simp add: spec_normalized_def remove_remove)
  qed
  then show ?thesis
    using False ab(3) by (simp add: detect_diagram_type_def hd_split_nl)
qed

lemma first_line_of_line:
  assumes "NL \<notin> set l" "py_strip l \<noteq> []"
  shows "spec_first_nonempty_line l = l" "spec_first_nonempty_line (l @ NL # rest) = l"
  using assms by (simp_all add: spec_first_nonempty_line_def split_nl_line split_nl_append)

lemma first_line_Nil: "spec_first_nonempty_line [] = []"
  by (simp add: spec_first_nonempty_line_def py_strip_def py_lstrip_def py_rstrip_def)

lemma first_line_cases:
  "spec_first_nonempty_line c = [] \<or>
   (NL \<notin> set (spec_first_nonempty_line c) \<and> py_strip (spec_first_nonempty_line c) \<noteq> [])"
proof (cases "filter (\<lambda>l. py_strip l \<noteq> []) (py_split_nl c)")
  case Nil
  then show ?thesis by (simp add: spec_first_nonempty_line_def)
next
  case (Cons l ls)
  then have "l \<in> set (filter (\<lambda>l. py_strip l \<noteq> []) (py_split_nl c))" by simp
  then have "l \<in> set (py_split_nl c)" "py_strip l \<noteq> []" by auto
  then show ?thesis using Cons by (auto simp: spec_first_nonempty_line_def dest: split_nl_no_NL)
qed

lemma first_line_idem: "spec_first_nonempty_line (spec_first_nonempty_line c) = spec_first_nonempty_line c"
  using first_line_cases[of c] first_line_Nil first_line_of_line(1) by auto

lemma detect_first_line: "detect_diagram_type c = detect_diagram_type (spec_first_nonempty_line c)"
  by (simp add: detect_by_line first_line_idem)

lemma detect_spec_normalized:
  assumes "spec_normalized (spec_first_nonempty_line c1) = spec_normalized (spec_first_nonempty_line c2)"
  shows "detect_diagram_type c1 = detect_diagram_type c2"
  unfolding detect_by_line
  using assms by (intro detect_loop_cong) (simp add: spec_normalized_def remove_remove)

lemma detect_unknown:
  assumes "\<forall>(k, t)\<in>set type_map. \<not> sublist k (spec_normalized (spec_first_nonempty_line c))"
  shows "detect_diagram_type c = ''unknown''"
  unfolding detect_by_line
  using assms by (intro detect_loop_unknown) (simp add: spec_normalized_def remove_remove)

lemma detect_blank:
  assumes "\<forall>x\<in>set c. py_isspace x"
  shows "detect_diagram_type c = ''unknown''"
proof -
  have "py_strip c = []" using assms by (simp add: strip_Nil_iff)
  then show ?thesis
    by (simp add: detect_diagram_type_def type_map_def py_in_def py_remove_def)
qed


lemma normalized_nonblank:
  assumes "k \<noteq> []" "\<forall>c\<in>set k. \<not> py_isspace c" "sublist k (spec_normalized l)"
  shows "py_strip l \<noteq> []"
proof
  assume "py_strip l = []"
  then have "\<forall>c\<in>set l. py_isspace c" by (simp add: strip_Nil_iff)
  then have "\<forall>c\<in>set (spec_normalized l). py_isspace c"
    using lower_space by (auto simp: spec_normalized_def)
  moreover have "set k \<subseteq> set (spec_normalized l)"
    using assms(3) by (rule set_mono_sublist)
  ultimately show False using assms(1,2) by (cases k) auto
qed

lemma detect_graph_first:
  assumes "NL \<notin> set l" "sublist ''graph'' (spec_normalized l)"
  shows "detect_diagram_type (l @ NL # rest) = ''flowchart''"
proof -
  have "py_strip l \<noteq> []"
    using assms(2) by (intro normalized_nonblank[of "''graph''"]) (auto simp: py_isspace_def)
  then have "spec_first_nonempty_line (l @ NL # rest) = l"
    using assms(1) by (simp add: first_line_of_line)
  then show ?thesis
    using assms(2)
    by (simp add: detect_by_line type_map_def py_in_def remove_remove spec_normalized_def)
qed

lemma gitgraph_is_graph: "sublist ''gitgraph'' x \<Longrightarrow> sublist ''graph'' x"
proof -
  have "sublist ''graph'' ''gitgraph''" by code_simp
  then show "sublist ''gitgraph'' x \<Longrightarrow> sublist ''graph'' x"
    unfolding sublist_def by (metis append.assoc)
qed

lemma detect_loop_never_git_graph: "detect_loop type_map fl \<noteq> ''git-graph''"
  using gitgraph_is_graph by (auto simp: type_map_def py_in_def)

lemma detect_never_git_graph: "detect_diagram_type c \<noteq> ''git-graph''"
  by (simp add: detect_by_line detect_loop_never_git_graph)

text \<open>
  Claim C1.  A first line \<open>gitGraph\<close>, lowercased, contains the keyword
  \<open>gitgraph\<close>; it contains the keyword \<open>graph\<close> as well, which stands first in
  \<open>type_map\<close>, so the loop returns \<open>flowchart\<close> and never reaches the entry for
  \<open>git-graph\<close> (\<open>detect_never_git_graph\<close> above: no content at all is classified
  as \<open>git-graph\<close>).
\<close>

theorem detect_gitgraph_is_flowchart:
  "detect_diagram_type ''gitGraph'' = ''flowchart''"
  by code_simp

text \<open>
  Claim C5.  Detection is case-insensitive, ignores spaces and hyphens, and looks at
  the first non-empty line only: the three spellings of \<open>graph TD\<close> are
  flowcharts; the result for a content is the result for its first non-empty line
  alone, and two contents whose first non-empty lines agree after lowercasing and
  removing spaces and hyphens get the same type; a first line containing \<open>graph\<close>
  gives \<open>flowchart\<close> whatever the later lines hold; a first non-empty line that
  contains no keyword, and a content with nothing but whitespace, give \<open>unknown\<close>.
\<close>

theorem detect_first_line_only:
  "detect_diagram_type ''Graph TD'' = ''flowchart'' \<and>
   detect_diagram_type ''GRAPH-TD'' = ''flowchart'' \<and>
   detect_diagram_type ''graphtd'' = ''flowchart'' \<and>
   detect_diagram_type c = detect_diagram_type (spec_first_nonempty_line c) \<and>
   (spec_normalized (spec_first_nonempty_line c) = spec_normalized (spec_first_nonempty_line c')
      \<longrightarrow> detect_diagram_type c = detect_diagram_type c') \<and>
   (NL \<notin> set l \<and> sublist ''graph'' (spec_normalized l)
      \<longrightarrow> detect_diagram_type (l @ NL # rest) = ''flowchart'') \<and>
   ((\<forall>(k, t)\<in>set type_map. \<not> sublist k (spec_normalized (spec_first_nonempty_line c)))
      \<longrightarrow> detect_diagram_type c = ''unknown'') \<and>
   ((\<forall>x\<in>set c. py_isspace x) \<longrightarrow> detect_diagram_type c = ''unknown'')"
proof (intro conjI impI)
  show "detect_diagram_type ''Graph TD'' = ''flowchart''" by code_simp
  show "detect_diagram_type ''GRAPH-TD'' = ''flowchart''" by code_simp
  show "detect_diagram_type ''graphtd'' = ''flowchart''" by code_simp
  show "detect_diagram_type c = detect_diagram_type (spec_first_nonempty_line c)"
    by (rule detect_first_line)
  show "detect_diagram_type c = detect_diagram_type c'"
    if "spec_normalized (spec_first_nonempty_line c) = spec_normalized (spec_first_nonempty_line c')"
    using that by (rule detect_spec_normalized)
  show "detect_diagram_type (l @ NL # rest) = ''flowchart''"
    if "NL \<notin> set l \<and> sublist ''graph'' (spec_normalized l)"
    using that by (simp add: detect_graph_first)
  show "detect_diagram_type c = ''unknown''"
    if "\<forall>(k, t)\<in>set type_map. \<not> sublist k (spec_normalized (spec_first_nonempty_line c))"
    using that by (rule detect_unknown)
  show "detect_diagram_type c = ''unknown''" if "\<forall>x\<in>set c. py_isspace x"
    using that by (rule detect_blank)
qed

theorem detect_first_line_only_witness:
  "detect_diagram_type (''  '' @ [NL] @ ''Graph TD'' @ [NL] @ ''pie'') = detect_diagram_type ''Graph TD'' \<and>
   detect_diagram_type (''Graph TD'' @ [NL] @ ''pie'') = detect_diagram_type ''GRAPH-TD'' \<and>
   detect_diagram_type (''graph TD'' @ NL # ''pie title Pets'') = ''flowchart'' \<and>
   detect_diagram_type (''hello world'' @ [NL] @ ''pie'') = ''unknown'' \<and>
   detect_diagram_type ('' '' @ [NL, CHR 0x09]) = ''unknown''"
proof -
  let ?c1 = "''  '' @ [NL] @ ''Graph TD'' @ [NL] @ ''pie''"
  let ?c2 = "''Graph TD'' @ [NL] @ ''pie''"
  let ?c3 = "''hello world'' @ [NL] @ ''pie''"
  let ?c4 = "'' '' @ [NL, CHR 0x09]"
  have a: "spec_first_nonempty_line ?c1 = ''Graph TD''" by code_simp
  have b: "spec_normalized (spec_first_nonempty_line ?c2) = spec_normalized (spec_first_nonempty_line ''GRAPH-TD'')"
    by code_simp
  have c: "NL \<notin> set ''graph TD'' \<and> sublist ''graph'' (spec_normalized ''graph TD'')"
    by code_simp
  have d: "\<forall>(k, t)\<in>set type_map. \<not> sublist k (spec_normalized (spec_first_nonempty_line ?c3))"
    by code_simp
  have e: "\<forall>x\<in>set ?c4. py_isspace x" by code_simp
  have "detect_diagram_type ?c1 = detect_diagram_type ''Graph TD''"
    using detect_first_line_only[of ?c1] a by simp
  moreover have "detect_diagram_type ?c2 = detect_diagram_type ''GRAPH-TD''"
    using detect_first_line_only[of ?c2 "''GRAPH-TD''"] b by blast
  moreover have "detect_diagram_type (''graph TD'' @ NL # ''pie title Pets'') = ''flowchart''"
    using detect_first_line_only[of _ _ "''graph TD''" "''pie title Pets''"] c by blast
  moreover have "detect_diagram_type ?c3 = ''unknown''"
    using detect_first_line_only[of ?c3] d by blast
  moreover have "detect_diagram_type ?c4 = ''unknown''"
    using detect_first_line_only[of ?c4] e by blast
  ultimately show ?thesis by blast
qed

section \<open>The Validator\<close>

text \<open>What one deletion of the \<open>finally\<close> clause does.\<close>

lemma unlink_not_refused:
  "\<not> deletion_refused env p (files w) \<Longrightarrow>
     unlink_missing_ok env p w = (None, w\<lparr>files := files w - {p}\<rparr>)"
  by (auto simp: deletion_refused_def unlink_missing_ok_def split: option.splits py_exn.splits)

lemma unlink_returns:
  "unlink_missing_ok env p w = (None, w') \<Longrightarrow> w' = w\<lparr>files := files w - {p}\<rparr>"
  by (auto simp: unlink_missing_ok_def split: option.splits py_exn.splits)

lemma unlink_world:
  "unlink_missing_ok env p w = (x, w') \<Longrightarrow> created w' = created w \<and> runs w' = runs w"
  by (auto simp: unlink_missing_ok_def split: option.splits py_exn.splits)

text \<open>
  Claim C3.  For an empty or whitespace-only content \<open>validate_diagram\<close> returns the
  fixed result at once and leaves the world as it was: no \<open>subprocess.run\<close> call is
  logged and no temporary file is created, whatever the operating system would have
  done.
\<close>

theorem validate_empty:
  assumes "\<forall>c\<in>set content. py_isspace c"
  shows "validate_diagram env content w =
           (Inr \<lparr>valid = False, errors = [''Empty diagram content''], warnings = [],
                 diagram_type = ''unknown''\<rparr>, w)"
proof -
  have "py_strip content = []" using assms by (simp add: strip_Nil_iff)
  then show ?thesis by (simp add: validate_diagram_def)
qed

theorem validate_empty_witness:
  "validate_diagram no_npx_env [] empty_world =
     (Inr \<lparr>valid = False, errors = [''Empty diagram content''], warnings = [],
           diagram_type = ''unknown''\<rparr>, empty_world) \<and>
   validate_diagram no_npx_env ('' '' @ [NL, CHR 0x09]) empty_world =
     (Inr \<lparr>valid = False, errors = [''Empty diagram content''], warnings = [],
           diagram_type = ''unknown''\<rparr>, empty_world)"
proof -
  have a: "\<forall>c\<in>set []. py_isspace c" by simp
  have b: "\<forall>c\<in>set ('' '' @ [NL, CHR 0x09]). py_isspace c" by code_simp
  show ?thesis
    using validate_empty[OF a, of no_npx_env empty_world] validate_empty[OF b, of no_npx_env empty_world]
    by blast
qed






text \<open>What the \<open>except\<close> clauses and the body of the \<open>try\<close> return, and where a returned
  value comes from.\<close>

lemma except_clauses_shape:
  "warnings (except_clauses content e) = [] \<and> errors (except_clauses content e) \<noteq> [] \<and>
   \<not> valid (except_clauses content e)"
  by (cases e) simp_all

lemma try_body_shape:
  "outcome (try_body env content w) = Inr v \<Longrightarrow>
     warnings v = [] \<and> (errors v \<noteq> [] \<longleftrightarrow> \<not> valid v)"
  by (auto simp: try_body_def Let_def parse_nonempty split: prod.splits sum.splits if_splits)

lemma validate_returned_value:
  assumes "validate_diagram env content w = (Inr r, w')"
  shows "r = \<lparr>valid = False, errors = [''Empty diagram content''], warnings = [],
              diagram_type = ''unknown''\<rparr> \<or>
         outcome (try_body env content w) = Inr r \<or>
         (\<exists>e. r = except_clauses content e)"
  using assms
  by (auto simp: validate_diagram_def Let_def split: if_splits prod.splits option.splits sum.splits)

lemma finally_not_refused:
  assumes "\<forall>p fs. \<not> deletion_refused env p fs"
  shows "\<exists>w'. finally_clause env tin tout w = (None, w')"
proof -
  have u: "\<exists>w'. unlink_missing_ok env p v = (None, w')" for p v
    using assms unlink_not_refused[of env p v] by blast
  show ?thesis
  proof (cases tin)
    case None
    then show ?thesis using u by (cases tout) (auto simp: finally_clause_def)
  next
    case (Some p)
    obtain w1 where w1: "unlink_missing_ok env p w = (None, w1)" using u by blast
    show ?thesis using Some w1 u by (cases tout) (auto simp: finally_clause_def)
  qed
qed

text \<open>
  Claim C10.  Whatever the content and the operating system do, a result that
  \<open>validate_diagram\<close> returns is a dictionary of the four keys (the record
  \<open>validation\<close>) whose \<open>warnings\<close> are empty and whose \<open>errors\<close> are non-empty exactly
  when \<open>valid\<close> is false; and it does return a result on every path unless a deletion
  of the clean-up is refused.
\<close>

theorem validate_result_wellformed:
  "(validate_diagram env content w = (Inr r, w') \<longrightarrow>
      warnings r = [] \<and> (errors r \<noteq> [] \<longleftrightarrow> \<not> valid r)) \<and>
   ((\<forall>p fs. \<not> deletion_refused env p fs) \<longrightarrow>
      (\<exists>r. fst (validate_diagram env content w) = Inr r))"
proof -
  have shape: "warnings r = [] \<and> (errors r \<noteq> [] \<longleftrightarrow> \<not> valid r)"
    if "validate_diagram env content w = (Inr r, w')"
    using validate_returned_value[OF that] try_body_shape[of env content w r]
      except_clauses_shape[of content]
    by auto
  have returns: "\<exists>r. fst (validate_diagram env content w) = Inr r"
    if a: "\<forall>p fs. \<not> deletion_refused env p fs"
  proof (cases "content = [] \<or> py_strip content = []")
    case True
    then show ?thesis by (auto simp: validate_diagram_def)
  next
    case False
    obtain w'' where "finally_clause env (temp_input (try_body env content w))
        (temp_output (try_body env content w)) (world_after (try_body env content w)) = (None, w'')"
      using finally_not_refused[OF a] by blast
    then show ?thesis using False by (simp add: validate_diagram_def Let_def)
  qed
  show ?thesis using shape returns by blast
qed

theorem validate_result_wellformed_witness:
  "fst (validate_diagram (plain_env (Inr \<lparr>returncode = 0, proc_stderr = []\<rparr>)) ''graph TD'' empty_world) =
     Inr \<lparr>valid = True, errors = [], warnings = [], diagram_type = ''flowchart''\<rparr> \<and>
   (\<exists>r. fst (validate_diagram (plain_env (Inr \<lparr>returncode = 1, proc_stderr = ''rendering''\<rparr>)) ''graph TD'' empty_world) = Inr r \<and>
        \<not> valid r \<and> warnings r = [] \<and> errors r \<noteq> [])"
proof -
  let ?ok = "plain_env (Inr \<lparr>returncode = 0, proc_stderr = []\<rparr>)"
  let ?bad = "plain_env (Inr \<lparr>returncode = 1, proc_stderr = ''rendering''\<rparr>)"
  have nr: "\<forall>p fs. \<not> deletion_refused (plain_env x) p fs" for x
    by (simp add: deletion_refused_def plain_env_def)
  obtain r where r: "fst (validate_diagram ?ok ''graph TD'' empty_world) = Inr r"
    using validate_result_wellformed[of ?ok "''graph TD''" empty_world] nr by blast
  obtain r' where r': "fst (validate_diagram ?bad ''graph TD'' empty_world) = Inr r'"
    using validate_result_wellformed[of ?bad "''graph TD''" empty_world] nr by blast
  have a: "projr (fst (validate_diagram ?ok ''graph TD'' empty_world)) =
             \<lparr>valid = True, errors = errors (projr (fst (validate_diagram ?ok ''graph TD'' empty_world))),
              warnings = warnings (projr (fst (validate_diagram ?ok ''graph TD'' empty_world))),
              diagram_type = ''flowchart''\<rparr>"
    by code_simp
  have c: "\<not> valid (projr (fst (validate_diagram ?bad ''graph TD'' empty_world)))" by code_simp
  have va: "valid r" "diagram_type r = ''flowchart''"
    using a r by (metis sum.sel(2) validation.select_convs(1), metis sum.sel(2) validation.select_convs(4))
  have "warnings r = [] \<and> (errors r \<noteq> [] \<longleftrightarrow> \<not> valid r)"
    using validate_result_wellformed[of ?ok "''graph TD''" empty_world r "snd (validate_diagram ?ok ''graph TD'' empty_world)"] r
    by (metis prod.collapse)
  then have "r = \<lparr>valid = True, errors = [], warnings = [], diagram_type = ''flowchart''\<rparr>"
    using va by (cases r) auto
  moreover have "warnings r' = [] \<and> (errors r' \<noteq> [] \<longleftrightarrow> \<not> valid r')"
    using validate_result_wellformed[of ?bad "''graph TD''" empty_world r' "snd (validate_diagram ?bad ''graph TD'' empty_world)"] r'
    by (metis prod.collapse)
  moreover have "\<not> valid r'" using c r' by simp
  ultimately show ?thesis using r r' by auto
qed

text \<open>
  Claim C7.  When \<open>f.write\<close> raises, \<open>temp_input\<close> has not been assigned yet: the
  \<open>finally\<close> clause skips the file, and the input file that was created is still on
  disk when \<open>validate_diagram\<close> returns its \<open>Validation error\<close> result.
\<close>

theorem validate_leaks_input_when_write_fails:
  "validate_diagram write_fails_env ''graph TD'' empty_world =
     (Inr \<lparr>valid = False, errors = [''Validation error: write failed''], warnings = [],
           diagram_type = ''flowchart''\<rparr>,
      \<lparr>files = {''/tmp/tmpa1b2c3.mmd''}, created = [''/tmp/tmpa1b2c3.mmd''], runs = []\<rparr>)"
  by code_simp

text \<open>
  Whenever \<open>f.write\<close> does not raise and \<open>validate_diagram\<close> returns, none of the
  temporary files the call has created exists any more.  (When a deletion is refused
  the call raises, and the files it could not delete stay.)
\<close>

lemma finally_returns:
  assumes "finally_clause env tin tout w = (None, w')"
  shows "created w' = created w \<and> files w' = files w - set_option tin - set_option tout"
  using assms
  by (cases tin; cases tout)
     (auto simp: finally_clause_def split: prod.splits option.splits dest!: unlink_returns)

lemma try_body_created:
  assumes "\<forall>name. f_write env name content = None"
  shows "\<exists>new. created (world_after (try_body env content w)) = created w @ new \<and>
           set new \<subseteq> set_option (temp_input (try_body env content w)) \<union>
                       set_option (temp_output (try_body env content w))"
  using assms
  by (auto simp: try_body_def with_temp_input_def with_temp_output_def subprocess_run_def Let_def
      split: sum.splits option.splits prod.splits)

lemma temp_files_removed_when_written:
  assumes "\<forall>name. f_write env name content = None"
    and "validate_diagram env content w = (Inr r, w')"
  shows "\<exists>new. created w' = created w @ new \<and> (\<forall>p\<in>set new. p \<notin> files w')"
proof (cases "content = [] \<or> py_strip content = []")
  case True
  then show ?thesis using assms(2) by (auto simp: validate_diagram_def)
next
  case False
  let ?fr = "try_body env content w"
  have fin: "finally_clause env (temp_input ?fr) (temp_output ?fr) (world_after ?fr) = (None, w')"
    using False assms(2)
    by (auto simp: validate_diagram_def Let_def split: prod.splits option.splits)
  obtain new where new: "created (world_after ?fr) = created w @ new"
      "set new \<subseteq> set_option (temp_input ?fr) \<union> set_option (temp_output ?fr)"
    using try_body_created[OF assms(1)] by blast
  have "created w' = created w @ new" "\<forall>p\<in>set new. p \<notin> files w'"
    using finally_returns[OF fin] new by auto
  then show ?thesis by blast
qed

section \<open>The command line\<close>

text \<open>
  Claim C4, as it is stated, fails when standard output cannot be flushed: the
  diagram is valid, \<open>print\<close> leaves the text in the buffer, \<open>sys.exit(0)\<close> is called,
  and the interpreter, unable to flush the buffer, ends with status 120; nothing has
  reached standard output.
\<close>

theorem main_stdout_full_exits_120:
  "validate_diagram stdout_full_env ''graph TD'' empty_world =
     (Inr \<lparr>valid = True, errors = [], warnings = [], diagram_type = ''flowchart''\<rparr>,
      \<lparr>files = {}, created = [''/tmp/tmpa1b2c3.mmd'', ''/tmp/tmpa1b2c3.svg''],
       runs = [(mmdc_command ''/tmp/tmpa1b2c3.mmd'' ''/tmp/tmpa1b2c3.svg'', 10)]\<rparr>) \<and>
   fst (main stdout_full_env [''validate_mermaid.py'', ''--stdin''] ''graph TD'' empty_world) =
     \<lparr>stdout = [], stderr = [Traceback (OtherException ''No space left on device'')],
      exit_code = 120\<rparr>"
  by code_simp

text \<open>
  Claim C4, amended.  Once the content has been read (from standard input, or from the
  file named on the command line), \<open>validate_diagram\<close> has returned a result and the
  printed text is delivered to standard output, \<open>main\<close> has printed that result as
  one JSON object with the four keys on standard output and nothing on standard
  error, and exits with code 0 if the result is valid and with code 1 if it is not.
\<close>

theorem main_exit_code_when_delivered:
  assumes "1 < length argv"
    and "(argv ! 1 = ''--stdin'' \<and> content = stdin_text) \<or>
         (argv ! 1 \<noteq> ''--stdin'' \<and> read_file env (argv ! 1) = Inr content)"
    and "validate_diagram env content w = (Inr r, w')"
    and "stdout_fate env (Json_dumps (Some 2) (to_json r)) = Delivered"
  shows "main env argv stdin_text w =
           (\<lparr>stdout = [Json_dumps (Some 2)
                (JObject [(''valid'', JBool (valid r)),
                          (''errors'', JArray (map JString (errors r))),
                          (''warnings'', JArray (map JString (warnings r))),
                          (''diagram_type'', JString (diagram_type r))])],
             stderr = [],
             exit_code = (if valid r then 0 else 1)\<rparr>, w') \<and>
         (exit_code (fst (main env argv stdin_text w)) = 0 \<longleftrightarrow> valid r)"
proof -
  have "main env argv stdin_text w = main_validate env content w"
    using assms(1,2) by (auto simp: main_def Let_def)
  moreover have "main_validate env content w =
           (\<lparr>stdout = [Json_dumps (Some 2) (to_json r)], stderr = [],
             exit_code = (if valid r then 0 else 1)\<rparr>, w')"
    using assms(3,4) by (simp add: main_validate_def Let_def)
  ultimately show ?thesis by (simp add: to_json_def)
qed

theorem main_exit_code_when_delivered_witness:
  "main (plain_env (Inr \<lparr>returncode = 0, proc_stderr = []\<rparr>))
        [''validate_mermaid.py'', ''--stdin''] ''graph TD'' empty_world =
     (\<lparr>stdout = [Json_dumps (Some 2)
         (JObject [(''valid'', JBool True), (''errors'', JArray []), (''warnings'', JArray []),
                   (''diagram_type'', JString ''flowchart'')])],
       stderr = [], exit_code = 0\<rparr>,
      \<lparr>files = {}, created = [''/tmp/tmpa1b2c3.mmd'', ''/tmp/tmpa1b2c3.svg''],
       runs = [(mmdc_command ''/tmp/tmpa1b2c3.mmd'' ''/tmp/tmpa1b2c3.svg'', 10)]\<rparr>) \<and>
   exit_code (fst (main (plain_env (Inl (TimeoutExpired ''timed out after 10 seconds'')))
        [''validate_mermaid.py'', ''--stdin''] ''graph TD'' empty_world)) = 1"
proof -
  let ?ok = "plain_env (Inr \<lparr>returncode = 0, proc_stderr = []\<rparr>)"
  let ?slow = "plain_env (Inl (TimeoutExpired ''timed out after 10 seconds''))"
  let ?argv = "[''validate_mermaid.py'', ''--stdin'']"
  let ?w = "\<lparr>files = {}, created = [''/tmp/tmpa1b2c3.mmd'', ''/tmp/tmpa1b2c3.svg''],
       runs = [(mmdc_command ''/tmp/tmpa1b2c3.mmd'' ''/tmp/tmpa1b2c3.svg'', 10)]\<rparr>"
  let ?r_ok = "\<lparr>valid = True, errors = [], warnings = [], diagram_type = ''flowchart''\<rparr>"
  let ?r_slow = "\<lparr>valid = False,
            errors = [''Validation timeout (diagram too complex or infinite loop)''],
            warnings = [], diagram_type = ''flowchart''\<rparr>"
  have len: "1 < length ?argv" by simp
  have src: "(?argv ! 1 = ''--stdin'' \<and> ''graph TD'' = ''graph TD'') \<or>
         (?argv ! 1 \<noteq> ''--stdin'' \<and> read_file ?ok (?argv ! 1) = Inr ''graph TD'')" by simp
  have src': "(?argv ! 1 = ''--stdin'' \<and> ''graph TD'' = ''graph TD'') \<or>
         (?argv ! 1 \<noteq> ''--stdin'' \<and> read_file ?slow (?argv ! 1) = Inr ''graph TD'')" by simp
  have v: "validate_diagram ?ok ''graph TD'' empty_world = (Inr ?r_ok, ?w)"
    by code_simp
  have v': "validate_diagram ?slow ''graph TD'' empty_world = (Inr ?r_slow, ?w)"
    by code_simp
  have d: "stdout_fate ?ok (Json_dumps (Some 2) (to_json ?r_ok)) = Delivered"
    by (simp add: plain_env_def)
  have d': "stdout_fate ?slow (Json_dumps (Some 2) (to_json ?r_slow)) = Delivered"
    by (simp add: plain_env_def)
  show ?thesis
    using main_exit_code_when_delivered[OF len src v d]
      main_exit_code_when_delivered[OF len src' v' d']
    by simp
qed

text \<open>
  Claim C2.  On a machine without \<open>npx\<close> the renderer cannot be started:
  \<open>subprocess.run\<close> raises \<open>FileNotFoundError\<close>, \<open>validate_diagram\<close> turns it into an
  invalid result, and \<open>main\<close> exits with code 1, the code of an invalid diagram, where
  the module's documentation promises code 2 (tool not available).
\<close>

theorem main_tool_unavailable_exits_1:
  "fst (main no_npx_env [''validate_mermaid.py'', ''--stdin'']
          (''graph TD'' @ NL # ''A-->B'') empty_world) =
     \<lparr>stdout = [Json_dumps (Some 2)
        (JObject [(''valid'', JBool False),
                  (''errors'', JArray [JString ''mermaid-cli not available - npx command not found'']),
                  (''warnings'', JArray []),
                  (''diagram_type'', JString ''flowchart'')])],
      stderr = [], exit_code = 1\<rparr>"
  by code_simp

end
